theory Spec2Isabelle
  imports Main
begin

section \<open>The Atlassian OAuth strategy of \<^verbatim>\<open>lib/passport-atlassian-oauth/strategy.js\<close>\<close>

text \<open>
  The file under verification has two functions: the constructor \<^verbatim>\<open>Strategy(options, verify)\<close>
  and the method \<^verbatim>\<open>Strategy.prototype.userProfile(token, tokenSecret, params, done)\<close>.
  Both are embedded below as HOL functions. What JavaScript does besides returning a value is
  made explicit: a \<^verbatim>\<open>throw\<close> is an error value, the write to the caller's options
  object is a write to a store of objects, and the calls of \<^verbatim>\<open>done\<close> and of the
  transport primitive are events of a trace.

  A JavaScript string is a HOL \<open>string\<close>: the text as its UTF-8 bytes. The program only
  concatenates strings and hands them on, which the bytes do as the text does.
\<close>

subsection \<open>Errors\<close>

text \<open>
  The values that the program throws or passes to \<^verbatim>\<open>done\<close> as its first argument:
  \<^item> \<open>Error m\<close> is \<^verbatim>\<open>new Error(m)\<close>;
  \<^item> \<open>InternalOAuthError m err\<close> is \<^verbatim>\<open>new InternalOAuthError(m, err)\<close>;
  \<^item> \<open>SyntaxError\<close> is what \<^verbatim>\<open>JSON.parse\<close> throws on a text that is not JSON;
  \<^item> \<open>TypeError\<close> is what a property read of \<^verbatim>\<open>null\<close> throws;
  \<^item> \<open>Thrown x\<close> is a value \<open>x\<close> thrown by the OAuth client itself.
  The type \<open>'e\<close> is that of the error values of the OAuth client, which this program
  never inspects.
\<close>

datatype 'e error =
    Error string
  | InternalOAuthError string 'e
  | SyntaxError
  | TypeError
  | Thrown 'e

subsection \<open>Values, as \<^verbatim>\<open>JSON.parse\<close> returns them and as the profile holds them\<close>

text \<open>
  A number is kept as the text that denotes it: the program never computes with one.
  An object is the list of its own properties in the order of their creation, each name once.
\<close>

datatype jsval =
    Undefined
  | Null
  | Bool bool
  | Num string
  | Str string
  | Arr "jsval list"
  | Obj "(string \<times> jsval) list"

text \<open>\<^verbatim>\<open>o[k] = v\<close> on the properties of an object: an existing property keeps its place.\<close>

fun set_prop :: "(string \<times> jsval) list \<Rightarrow> string \<Rightarrow> jsval \<Rightarrow> (string \<times> jsval) list" where
  "set_prop [] k v = [(k, v)]"
| "set_prop ((k', v') # kvs) k v =
     (if k' = k then (k, v) # kvs else (k', v') # set_prop kvs k v)"

text \<open>
  \<^verbatim>\<open>x.k\<close> for a name \<open>k\<close> that no prototype defines and that is neither an index nor
  \<^verbatim>\<open>length\<close> (as \<^verbatim>\<open>name\<close>, \<^verbatim>\<open>displayName\<close>, \<^verbatim>\<open>slug\<close> and
  \<^verbatim>\<open>emailAddress\<close> are): the own property of an object, \<^verbatim>\<open>undefined\<close> where there is
  none and on a boolean, a number, a string or an array, and a \<^verbatim>\<open>TypeError\<close> on
  \<^verbatim>\<open>null\<close> and \<^verbatim>\<open>undefined\<close>.
\<close>

fun get_prop :: "jsval \<Rightarrow> string \<Rightarrow> 'e error + jsval" where
  "get_prop Undefined k = Inl TypeError"
| "get_prop Null k = Inl TypeError"
| "get_prop (Obj kvs) k = Inr (case map_of kvs k of None \<Rightarrow> Undefined | Some v \<Rightarrow> v)"
| "get_prop v k = Inr Undefined"

subsection \<open>\<^verbatim>\<open>JSON.parse\<close>\<close>

text \<open>
  The builtin, after the JSON grammar of ECMA-404 that ECMAScript prescribes for it: first
  the text is cut into tokens, then the tokens are read by a stack machine. Either step
  fails exactly where the text is not JSON, and \<^verbatim>\<open>JSON.parse\<close> then throws a
  \<^verbatim>\<open>SyntaxError\<close>.
\<close>

datatype token =
    LBrace | RBrace | LBrack | RBrack | Colon | Comma
  | TStr string | TNum string | TTrue | TFalse | TNull

text \<open>Where the number grammar \<^verbatim>\<open>-?(0|[1-9][0-9]*)(\.[0-9]+)?([eE][+-]?[0-9]+)?\<close> stands.\<close>

datatype numstate = NMinus | NZero | NInt | NDot | NFrac | NE | NESign | NExp

text \<open>
  The state of the tokenizer: between tokens; in a string (the bytes so far, reversed, and a
  high surrogate of a \<^verbatim>\<open>\u\<close> escape waiting for its low one); after a backslash; in the
  four hex digits of a \<^verbatim>\<open>\u\<close> escape; in a number; in one of the three literals.
\<close>

datatype lexstate =
    LStart
  | LStr string "nat option"
  | LEsc string "nat option"
  | LUni string "nat option" nat nat
  | LNum numstate string
  | LLit string token

definition is_ws :: "char \<Rightarrow> bool" where
  "is_ws c = (c \<in> set [CHR 0x20, CHR 0x09, CHR 0x0A, CHR 0x0D])"

definition is_digit :: "char \<Rightarrow> bool" where
  "is_digit c = (c \<in> set ''0123456789'')"

definition hex_value :: "char \<Rightarrow> nat option" where
  "hex_value c =
     (if is_digit c then Some (of_char c - 48)
      else if c \<in> set ''abcdef'' then Some (of_char c - 87)
      else if c \<in> set ''ABCDEF'' then Some (of_char c - 55)
      else None)"

text \<open>The UTF-8 bytes of a code point; a surrogate without its partner is written the same way.\<close>

definition utf8 :: "nat \<Rightarrow> string" where
  "utf8 n =
     (if n < 0x80 then [char_of n]
      else if n < 0x800 then [char_of (0xC0 + n div 0x40), char_of (0x80 + n mod 0x40)]
      else if n < 0x10000 then
        [char_of (0xE0 + n div 0x1000), char_of (0x80 + n div 0x40 mod 0x40),
         char_of (0x80 + n mod 0x40)]
      else
        [char_of (0xF0 + n div 0x40000), char_of (0x80 + n div 0x1000 mod 0x40),
         char_of (0x80 + n div 0x40 mod 0x40), char_of (0x80 + n mod 0x40)])"

text \<open>Writing out a high surrogate that found no low one.\<close>

definition flush :: "string \<Rightarrow> nat option \<Rightarrow> string" where
  "flush acc pend = (case pend of None \<Rightarrow> acc | Some h \<Rightarrow> rev (utf8 h) @ acc)"

text \<open>The code unit \<open>v\<close> of a completed \<^verbatim>\<open>\u\<close> escape joins the string.\<close>

definition add_unit :: "string \<Rightarrow> nat option \<Rightarrow> nat \<Rightarrow> lexstate" where
  "add_unit acc pend v =
     (case pend of
        Some h \<Rightarrow>
          if 0xDC00 \<le> v \<and> v < 0xE000
          then LStr (rev (utf8 (0x10000 + (h - 0xD800) * 0x400 + (v - 0xDC00))) @ acc) None
          else if 0xD800 \<le> v \<and> v < 0xDC00 then LStr (flush acc pend) (Some v)
          else LStr (rev (utf8 v) @ flush acc pend) None
      | None \<Rightarrow>
          if 0xD800 \<le> v \<and> v < 0xDC00 then LStr acc (Some v)
          else LStr (rev (utf8 v) @ acc) None)"

text \<open>A character met between tokens.\<close>

definition lex_start :: "char \<Rightarrow> (token list \<times> lexstate) option" where
  "lex_start c =
     (if is_ws c then Some ([], LStart)
      else if c = CHR ''{'' then Some ([LBrace], LStart)
      else if c = CHR ''}'' then Some ([RBrace], LStart)
      else if c = CHR ''['' then Some ([LBrack], LStart)
      else if c = CHR '']'' then Some ([RBrack], LStart)
      else if c = CHR '':'' then Some ([Colon], LStart)
      else if c = CHR '','' then Some ([Comma], LStart)
      else if c = CHR 0x22 then Some ([], LStr [] None)
      else if c = CHR ''-'' then Some ([], LNum NMinus [c])
      else if c = CHR ''0'' then Some ([], LNum NZero [c])
      else if is_digit c then Some ([], LNum NInt [c])
      else if c = CHR ''t'' then Some ([], LLit ''rue'' TTrue)
      else if c = CHR ''f'' then Some ([], LLit ''alse'' TFalse)
      else if c = CHR ''n'' then Some ([], LLit ''ull'' TNull)
      else None)"

text \<open>A character that continues a number, and the states in which a number may end.\<close>

definition num_next :: "numstate \<Rightarrow> char \<Rightarrow> numstate option" where
  "num_next ns c =
     (case ns of
        NMinus \<Rightarrow> if c = CHR ''0'' then Some NZero else if is_digit c then Some NInt else None
      | NZero \<Rightarrow> if c = CHR ''.'' then Some NDot else if c \<in> set ''eE'' then Some NE else None
      | NInt \<Rightarrow> if is_digit c then Some NInt else if c = CHR ''.'' then Some NDot
                else if c \<in> set ''eE'' then Some NE else None
      | NDot \<Rightarrow> if is_digit c then Some NFrac else None
      | NFrac \<Rightarrow> if is_digit c then Some NFrac else if c \<in> set ''eE'' then Some NE else None
      | NE \<Rightarrow> if c \<in> set ''+-'' then Some NESign else if is_digit c then Some NExp else None
      | NESign \<Rightarrow> if is_digit c then Some NExp else None
      | NExp \<Rightarrow> if is_digit c then Some NExp else None)"

definition num_final :: "numstate \<Rightarrow> bool" where
  "num_final ns = (ns \<in> set [NZero, NInt, NFrac, NExp])"

text \<open>One character: the tokens it completes and the state after it, or no token at all.\<close>

definition lex_step :: "lexstate \<Rightarrow> char \<Rightarrow> (token list \<times> lexstate) option" where
  "lex_step st c =
     (case st of
        LStart \<Rightarrow> lex_start c
      | LStr acc pend \<Rightarrow>
          if c = CHR 0x22 then Some ([TStr (rev (flush acc pend))], LStart)
          else if c = CHR 0x5C then Some ([], LEsc acc pend)
          else if (of_char c :: nat) < 0x20 then None
          else Some ([], LStr (c # flush acc pend) None)
      | LEsc acc pend \<Rightarrow>
          if c = CHR ''u'' then Some ([], LUni acc pend 0 0)
          else (case map_of
                  [(CHR 0x22, CHR 0x22), (CHR 0x5C, CHR 0x5C), (CHR ''/'', CHR ''/''),
                   (CHR ''b'', CHR 0x08), (CHR ''f'', CHR 0x0C), (CHR ''n'', CHR 0x0A),
                   (CHR ''r'', CHR 0x0D), (CHR ''t'', CHR 0x09)] c of
                  None \<Rightarrow> None
                | Some d \<Rightarrow> Some ([], LStr (d # flush acc pend) None))
      | LUni acc pend k v \<Rightarrow>
          (case hex_value c of
             None \<Rightarrow> None
           | Some d \<Rightarrow>
               if k < 3 then Some ([], LUni acc pend (Suc k) (16 * v + d))
               else Some ([], add_unit acc pend (16 * v + d)))
      | LNum ns acc \<Rightarrow>
          (case num_next ns c of
             Some ns' \<Rightarrow> Some ([], LNum ns' (c # acc))
           | None \<Rightarrow>
               if num_final ns
               then (case lex_start c of
                       None \<Rightarrow> None
                     | Some (ts, st') \<Rightarrow> Some (TNum (rev acc) # ts, st'))
               else None)
      | LLit rest t \<Rightarrow>
          (case rest of
             [] \<Rightarrow> None
           | r # rs \<Rightarrow>
               if c \<noteq> r then None
               else if rs = [] then Some ([t], LStart)
               else Some ([], LLit rs t)))"

text \<open>The end of the text: only between tokens, or in a number that may end.\<close>

definition lex_end :: "lexstate \<Rightarrow> token list option" where
  "lex_end st =
     (case st of
        LStart \<Rightarrow> Some []
      | LNum ns acc \<Rightarrow> if num_final ns then Some [TNum (rev acc)] else None
      | _ \<Rightarrow> None)"

fun lex :: "lexstate \<Rightarrow> string \<Rightarrow> token list option" where
  "lex st [] = lex_end st"
| "lex st (c # cs) =
     (case lex_step st c of
        None \<Rightarrow> None
      | Some (ts, st') \<Rightarrow> (case lex st' cs of None \<Rightarrow> None | Some ts' \<Rightarrow> Some (ts @ ts')))"

text \<open>
  The stack machine. A frame is an array or an object under construction; an object
  that has read a name waits for the value of that name. The mode says what may come next.
\<close>

datatype frame =
    FArr "jsval list"
  | FObj "(string \<times> jsval) list"
  | FKey "(string \<times> jsval) list" string

datatype mode =
    MValue | MValueOrClose | MNameOrClose | MName | MColon | MAfterValue | MFinished jsval

text \<open>A value is complete: it is the result, or it goes into the container on top.\<close>

fun complete :: "jsval \<Rightarrow> frame list \<Rightarrow> (mode \<times> frame list) option" where
  "complete v [] = Some (MFinished v, [])"
| "complete v (FArr xs # fs) = Some (MAfterValue, FArr (xs @ [v]) # fs)"
| "complete v (FKey kvs k # fs) = Some (MAfterValue, FObj (set_prop kvs k v) # fs)"
| "complete v (FObj kvs # fs) = None"

fun value_token :: "token \<Rightarrow> frame list \<Rightarrow> (mode \<times> frame list) option" where
  "value_token (TStr s) fs = complete (Str s) fs"
| "value_token (TNum n) fs = complete (Num n) fs"
| "value_token TTrue fs = complete (Bool True) fs"
| "value_token TFalse fs = complete (Bool False) fs"
| "value_token TNull fs = complete Null fs"
| "value_token LBrack fs = Some (MValueOrClose, FArr [] # fs)"
| "value_token LBrace fs = Some (MNameOrClose, FObj [] # fs)"
| "value_token t fs = None"

fun name_token :: "token \<Rightarrow> frame list \<Rightarrow> (mode \<times> frame list) option" where
  "name_token (TStr k) (FObj kvs # fs) = Some (MColon, FKey kvs k # fs)"
| "name_token t fs = None"

fun close_token :: "token \<Rightarrow> frame list \<Rightarrow> (mode \<times> frame list) option" where
  "close_token RBrack (FArr xs # fs) = complete (Arr xs) fs"
| "close_token RBrace (FObj kvs # fs) = complete (Obj kvs) fs"
| "close_token t fs = None"

fun parse_step :: "mode \<Rightarrow> frame list \<Rightarrow> token \<Rightarrow> (mode \<times> frame list) option" where
  "parse_step MValue fs t = value_token t fs"
| "parse_step MValueOrClose fs t =
     (if t = RBrack then close_token t fs else value_token t fs)"
| "parse_step MNameOrClose fs t =
     (if t = RBrace then close_token t fs else name_token t fs)"
| "parse_step MName fs t = name_token t fs"
| "parse_step MColon fs t = (if t = Colon then Some (MValue, fs) else None)"
| "parse_step MAfterValue fs t =
     (if t = Comma
      then (case fs of
              FArr xs # fs' \<Rightarrow> Some (MValue, fs)
            | FObj kvs # fs' \<Rightarrow> Some (MName, fs)
            | _ \<Rightarrow> None)
      else close_token t fs)"
| "parse_step (MFinished v) fs t = None"

fun parse_tokens :: "mode \<Rightarrow> frame list \<Rightarrow> token list \<Rightarrow> jsval option" where
  "parse_tokens m fs [] = (case m of MFinished v \<Rightarrow> Some v | _ \<Rightarrow> None)"
| "parse_tokens m fs (t # ts) =
     (case parse_step m fs t of
        None \<Rightarrow> None
      | Some (m', fs') \<Rightarrow> parse_tokens m' fs' ts)"

definition JSON_parse :: "string \<Rightarrow> 'e error + jsval" where
  "JSON_parse text =
     (case lex LStart text of
        None \<Rightarrow> Inl SyntaxError
      | Some ts \<Rightarrow>
          (case parse_tokens MValue [] ts of
             None \<Rightarrow> Inl SyntaxError
           | Some v \<Rightarrow> Inr v))"

subsection \<open>The options object and the constructor\<close>

text \<open>
  The options that the constructor reads are strings (four URLs and the name of a
  signature method), so a property of an options object is a string or is missing, and
  reading a missing property gives \<^verbatim>\<open>undefined\<close>, here \<open>None\<close>. The caller's object
  lives in a store of objects, and the constructor gets a reference to it, or
  \<^verbatim>\<open>undefined\<close> or \<^verbatim>\<open>null\<close>: what the constructor writes, it writes to the store.
\<close>

type_synonym object = "string \<rightharpoonup> string"

record store =
  cells :: "nat \<Rightarrow> object"
  fresh :: nat

datatype argument = ArgUndefined | ArgNull | ArgObject nat

text \<open>\<^verbatim>\<open>{}\<close>: a new empty object.\<close>

definition new_object :: "store \<Rightarrow> store \<times> nat" where
  "new_object s =
     (s\<lparr>cells := (cells s)(fresh s := Map.empty), fresh := Suc (fresh s)\<rparr>, fresh s)"

definition get :: "store \<Rightarrow> nat \<Rightarrow> string \<Rightarrow> string option" where
  "get s a k = cells s a k"

definition put :: "store \<Rightarrow> nat \<Rightarrow> string \<Rightarrow> string \<Rightarrow> store" where
  "put s a k v = s\<lparr>cells := (cells s)(a := (cells s a)(k \<mapsto> v))\<rparr>"

text \<open>What \<^verbatim>\<open>if (x)\<close>, \<^verbatim>\<open>!x\<close> and \<^verbatim>\<open>x || y\<close> ask: \<^verbatim>\<open>undefined\<close> and the empty string are falsy.\<close>

definition truthy :: "string option \<Rightarrow> bool" where
  "truthy x = (case x of None \<Rightarrow> False | Some v \<Rightarrow> v \<noteq> [])"

text \<open>\<^verbatim>\<open>x || y\<close> with a string \<open>y\<close>.\<close>

definition js_or :: "string option \<Rightarrow> string \<Rightarrow> string" where
  "js_or x y = (case x of None \<Rightarrow> y | Some v \<Rightarrow> if v \<noteq> [] then v else y)"

text \<open>\<^verbatim>\<open>x + y\<close> with a string \<open>y\<close>: \<^verbatim>\<open>undefined\<close> is written out.\<close>

definition js_plus :: "string option \<Rightarrow> string \<Rightarrow> string" where
  "js_plus x y = (case x of None \<Rightarrow> ''undefined'' @ y | Some v \<Rightarrow> v @ y)"

subsection \<open>The OAuth client\<close>

text \<open>
  \<^verbatim>\<open>_performSecureRequest(token, tokenSecret, method, url, extra_params, post_body,
  post_content_type, callback)\<close> belongs to the OAuth library. The record is what it is
  called with (here \<^verbatim>\<open>extra_params\<close> is always \<^verbatim>\<open>null\<close>, that is \<open>None\<close>).
\<close>

record request =
  oauth_token :: string
  oauth_token_secret :: string
  http_method :: string
  url :: string
  extra_params :: "(string \<times> string) list option"
  post_body :: string
  post_content_type :: string

text \<open>What the callback is called with: \<^verbatim>\<open>(err, body, res)\<close> with an error, or without one.\<close>

datatype 'e response = Failure 'e | Success string

text \<open>
  What the primitive may do with a request. It throws before it has called anything; or it
  calls the callback before it returns, and an exception of the callback passes through it
  to its caller; or it returns and the callback runs in a later turn of the event loop, where
  an exception of the callback has no caller to go to; or the callback never runs.
\<close>

datatype 'e behaviour =
    Throws 'e
  | CallsBack "'e response"
  | CallsBackLater "'e response"
  | NeverCallsBack

record 'e oauth =
  performSecureRequest :: "request \<Rightarrow> 'e behaviour"

text \<open>The strategy object: \<^verbatim>\<open>name\<close>, \<^verbatim>\<open>_applicationURL\<close>, \<^verbatim>\<open>_oauth\<close>.\<close>

record 'e strategy =
  name :: string
  applicationURL :: "string option"
  oauth :: "'e oauth"

text \<open>
  \<^verbatim>\<open>function Strategy(options, verify)\<close>. The base constructor \<^verbatim>\<open>OAuthStrategy\<close> is of the
  OAuth library: it is a parameter, a function that reads the options object and the
  verify callback and either throws or sets up the OAuth client. The result is the store
  after the call, and either what was thrown or the strategy.
\<close>

definition Strategy ::
  "(object \<Rightarrow> 'v \<Rightarrow> 'e error + 'e oauth) \<Rightarrow> store \<Rightarrow> argument \<Rightarrow> 'v
     \<Rightarrow> store \<times> ('e error + 'e strategy)" where
  "Strategy OAuthStrategy s0 options0 verify =
     (let (s, options) = (case options0 of ArgObject a \<Rightarrow> (s0, a) | _ \<Rightarrow> new_object s0) in
      if \<not> truthy (get s options ''applicationURL'')
      then (s, Inl (Error ''Atlassian Oauth Strategy requires a applicationURL option''))
      else if \<not> truthy (get s options ''callbackURL'')
      then (s, Inl (Error ''Atlassian Oauth Strategy requires a callbackURL option''))
      else
        let s = put s options ''requestTokenURL''
                  (js_or (get s options ''requestTokenURL'')
                     (js_plus (get s options ''applicationURL'')
                        ''/plugins/servlet/oauth/request-token''));
            s = put s options ''accessTokenURL''
                  (js_or (get s options ''accessTokenURL'')
                     (js_plus (get s options ''applicationURL'')
                        ''/plugins/servlet/oauth/access-token''));
            s = put s options ''userAuthorizationURL''
                  (js_or (get s options ''userAuthorizationURL'')
                     (js_plus (get s options ''applicationURL'')
                        ''/plugins/servlet/oauth/authorize''));
            s = put s options ''signatureMethod''
                  (js_or (get s options ''signatureMethod'') ''RSA-SHA1'')
        in case OAuthStrategy (cells s options) verify of
             Inl e \<Rightarrow> (s, Inl e)
           | Inr client \<Rightarrow>
               (s, Inr \<lparr>name = ''atlassian-oauth'',
                        applicationURL = get s options ''applicationURL'',
                        oauth = client\<rparr>))"

subsection \<open>Fetching the profile\<close>

text \<open>
  What can be seen of a call of \<^verbatim>\<open>userProfile\<close>, in the order in which it happens: the
  primitive is called with a request; \<^verbatim>\<open>done\<close> is called, with \<^verbatim>\<open>(e)\<close> or with
  \<^verbatim>\<open>(null, profile)\<close>; an exception leaves a callback that the event loop has called, and
  nothing catches it.
\<close>

datatype 'e event =
    Request request
  | Done "'e error option" "jsval option"
  | Uncaught "'e error"

text \<open>A piece of code has run: what happened, and the exception it ended with, if any.\<close>

type_synonym 'e run = "'e event list \<times> 'e error option"

definition done_error :: "'e error \<Rightarrow> 'e run" where
  "done_error e = ([Done (Some e) None], None)"

definition done_profile :: "jsval \<Rightarrow> 'e run" where
  "done_profile profile = ([Done None (Some profile)], None)"

definition throw :: "'e error \<Rightarrow> 'e run" where
  "throw e = ([], Some e)"

text \<open>\<^verbatim>\<open>try { body } catch (e) { handler(e) }\<close>\<close>

definition try_catch :: "'e run \<Rightarrow> ('e error \<Rightarrow> 'e run) \<Rightarrow> 'e run" where
  "try_catch body handler =
     (case body of
        (evs, None) \<Rightarrow> (evs, None)
      | (evs, Some e) \<Rightarrow> (case handler e of (evs', x) \<Rightarrow> (evs @ evs', x)))"

text \<open>The call \<^verbatim>\<open>self._oauth._performSecureRequest(..., callback)\<close>.\<close>

definition call_performSecureRequest ::
  "'e oauth \<Rightarrow> request \<Rightarrow> ('e response \<Rightarrow> 'e run) \<Rightarrow> 'e run" where
  "call_performSecureRequest client req callback =
     (case performSecureRequest client req of
        Throws x \<Rightarrow> ([Request req], Some (Thrown x))
      | CallsBack r \<Rightarrow> (case callback r of (evs, x) \<Rightarrow> (Request req # evs, x))
      | CallsBackLater r \<Rightarrow>
          (case callback r of
             (evs, None) \<Rightarrow> (Request req # evs, None)
           | (evs, Some e) \<Rightarrow> (Request req # evs @ [Uncaught e], None))
      | NeverCallsBack \<Rightarrow> ([Request req], None))"

text \<open>Sequencing of steps that may throw.\<close>

definition bind :: "'e error + 'a \<Rightarrow> ('a \<Rightarrow> 'e error + 'b) \<Rightarrow> 'e error + 'b" where
  "bind m f = (case m of Inl e \<Rightarrow> Inl e | Inr v \<Rightarrow> f v)"

text \<open>Lines 100 to 113: from \<^verbatim>\<open>JSON.parse(body)\<close> to the finished profile.\<close>

definition make_profile :: "string \<Rightarrow> string \<Rightarrow> string \<Rightarrow> 'e error + jsval" where
  "make_profile token tokenSecret body =
     bind (JSON_parse body) (\<lambda>json.
     let profile = [(''provider'', Str ''atlassian-oauth'')] in
     bind (get_prop json ''name'') (\<lambda>v. let profile = set_prop profile ''id'' v in
     bind (get_prop json ''name'') (\<lambda>v. let profile = set_prop profile ''username'' v in
     bind (get_prop json ''displayName'') (\<lambda>v. let profile = set_prop profile ''displayName'' v in
     bind (get_prop json ''slug'') (\<lambda>v. let profile = set_prop profile ''avatarUrls'' v in
     bind (get_prop json ''emailAddress'') (\<lambda>v.
     let profile = set_prop profile ''emails'' (Arr [Obj [(''value'', v)]]);
         profile = set_prop profile ''_raw'' (Str body);
         profile = set_prop profile ''_json'' json;
         profile = set_prop profile ''token'' (Str token);
         profile = set_prop profile ''tokenSecret'' (Str tokenSecret)
     in Inr (Obj profile)))))))"

definition whoami_request :: "'e strategy \<Rightarrow> string \<Rightarrow> string \<Rightarrow> request" where
  "whoami_request self token tokenSecret =
     (let stashWhoAMIResource = js_plus (applicationURL self) ''/plugins/servlet/applinks/whoami''
      in \<lparr>oauth_token = token, oauth_token_secret = tokenSecret, http_method = ''GET'',
          url = stashWhoAMIResource, extra_params = None, post_body = '''',
          post_content_type = ''application/json''\<rparr>)"

definition profile_request :: "'e strategy \<Rightarrow> string \<Rightarrow> string \<Rightarrow> string \<Rightarrow> request" where
  "profile_request self token tokenSecret username =
     (let stashProfileResource = js_plus (applicationURL self) ''/rest/api/1.0/users/'' @ username
      in \<lparr>oauth_token = token, oauth_token_secret = tokenSecret, http_method = ''GET'',
          url = stashProfileResource, extra_params = None, post_body = '''',
          post_content_type = ''application/json''\<rparr>)"

text \<open>The callback of the second request (lines 95 to 115).\<close>

definition profile_callback :: "string \<Rightarrow> string \<Rightarrow> 'e response \<Rightarrow> 'e run" where
  "profile_callback token tokenSecret r =
     (case r of
        Failure err \<Rightarrow> done_error (InternalOAuthError ''failed to fetch user profile'' err)
      | Success body \<Rightarrow>
          (case make_profile token tokenSecret body of
             Inl e \<Rightarrow> throw e
           | Inr profile \<Rightarrow> done_profile profile))"

text \<open>The callback of the first request (lines 86 to 119).\<close>

definition whoami_callback :: "'e strategy \<Rightarrow> string \<Rightarrow> string \<Rightarrow> 'e response \<Rightarrow> 'e run" where
  "whoami_callback self token tokenSecret r =
     (case r of
        Failure err \<Rightarrow> done_error (InternalOAuthError ''failed to fetch username'' err)
      | Success body \<Rightarrow>
          (let username = body in
           try_catch
             (call_performSecureRequest (oauth self)
                (profile_request self token tokenSecret username)
                (profile_callback token tokenSecret))
             done_error))"

text \<open>
  \<^verbatim>\<open>Strategy.prototype.userProfile = function (token, tokenSecret, params, done)\<close>. The
  callback \<^verbatim>\<open>done\<close> is the caller's: its calls are events, and it returns.
\<close>

definition userProfile :: "'e strategy \<Rightarrow> string \<Rightarrow> string \<Rightarrow> 'p \<Rightarrow> 'e run" where
  "userProfile self token tokenSecret params =
     try_catch
       (call_performSecureRequest (oauth self)
          (whoami_request self token tokenSecret)
          (whoami_callback self token tokenSecret))
       done_error"

text \<open>Reading a trace.\<close>

fun done_calls :: "'e event list \<Rightarrow> ('e error option \<times> jsval option) list" where
  "done_calls [] = []"
| "done_calls (Done e p # evs) = (e, p) # done_calls evs"
| "done_calls (ev # evs) = done_calls evs"

fun requests :: "'e event list \<Rightarrow> request list" where
  "requests [] = []"
| "requests (Request r # evs) = r # requests evs"
| "requests (ev # evs) = requests evs"

fun uncaught :: "'e event list \<Rightarrow> 'e error list" where
  "uncaught [] = []"
| "uncaught (Uncaught e # evs) = e # uncaught evs"
| "uncaught (ev # evs) = uncaught evs"

subsection \<open>Inputs for the examples\<close>

text \<open>The profile response of the specification's example.\<close>

definition jane_body :: string where
  "jane_body = ''{\"name\":\"jdoe\",\"displayName\":\"Jane Doe\",\"slug\":\"jdoe\",\"emailAddress\":\"jane@example.com\"}''"

text \<open>
  An OAuth client that treats the whoami request of \<^verbatim>\<open>https://example.atlassian.net\<close> in
  one given way and every other request in another, and a strategy with that client.
\<close>

definition example_client :: "string behaviour \<Rightarrow> string behaviour \<Rightarrow> string oauth" where
  "example_client whoami other =
     \<lparr>performSecureRequest = (\<lambda>req.
        if url req = ''https://example.atlassian.net/plugins/servlet/applinks/whoami''
        then whoami else other)\<rparr>"

definition example_strategy :: "string behaviour \<Rightarrow> string behaviour \<Rightarrow> string strategy" where
  "example_strategy whoami other =
     \<lparr>name = ''atlassian-oauth'', applicationURL = Some ''https://example.atlassian.net'',
      oauth = example_client whoami other\<rparr>"

text \<open>A store whose only object, at address 0, is the given one.\<close>

definition example_store :: "object \<Rightarrow> store" where
  "example_store obj = \<lparr>cells = (\<lambda>a. Map.empty)(0 := obj), fresh = 1\<rparr>"

text \<open>A base constructor that accepts every options object.\<close>

definition example_OAuthStrategy :: "object \<Rightarrow> unit \<Rightarrow> string error + string oauth" where
  "example_OAuthStrategy obj verify = Inr (example_client NeverCallsBack NeverCallsBack)"

text \<open>The property \<open>k\<close> of each profile that \<^verbatim>\<open>done\<close> was given.\<close>

fun profile_properties :: "string \<Rightarrow> 'e event list \<Rightarrow> ('e error + jsval) list" where
  "profile_properties k [] = []"
| "profile_properties k (Done e (Some p) # evs) = get_prop p k # profile_properties k evs"
| "profile_properties k (ev # evs) = profile_properties k evs"

section \<open>Properties of the constructor\<close>

subsection \<open>Auxiliary facts\<close>

lemmas ctor_defs = Strategy_def get_def put_def truthy_def js_or_def js_plus_def new_object_def

lemma get_put:
  "get (put s a k v) a' k' = (if a' = a \<and> k' = k then Some v else get s a' k')"
  by (simp add: get_def put_def)

lemma fresh_put: "fresh (put s a k v) = fresh s"
  by (simp add: put_def)

lemma cells_put_other:
  "b \<noteq> a \<or> k' \<noteq> k \<Longrightarrow> cells (put s a k v) b k' = cells s b k'"
  by (auto simp: put_def)

text \<open>
  The constructor on an object: every value that is written is computed from the
  object as the caller passed it, since the four names differ.
\<close>

lemma Strategy_puts:
  "Strategy OAuthStrategy s (ArgObject a) verify =
     (if \<not> truthy (get s a ''applicationURL'')
      then (s, Inl (Error ''Atlassian Oauth Strategy requires a applicationURL option''))
      else if \<not> truthy (get s a ''callbackURL'')
      then (s, Inl (Error ''Atlassian Oauth Strategy requires a callbackURL option''))
      else
        let app = get s a ''applicationURL'';
            s' = put (put (put (put s a
                   ''requestTokenURL''
                     (js_or (get s a ''requestTokenURL'')
                        (js_plus app ''/plugins/servlet/oauth/request-token''))) a
                   ''accessTokenURL''
                     (js_or (get s a ''accessTokenURL'')
                        (js_plus app ''/plugins/servlet/oauth/access-token''))) a
                   ''userAuthorizationURL''
                     (js_or (get s a ''userAuthorizationURL'')
                        (js_plus app ''/plugins/servlet/oauth/authorize''))) a
                   ''signatureMethod'' (js_or (get s a ''signatureMethod'') ''RSA-SHA1'')
        in case OAuthStrategy (cells s' a) verify of
             Inl e \<Rightarrow> (s', Inl e)
           | Inr client \<Rightarrow>
               (s', Inr \<lparr>name = ''atlassian-oauth'', applicationURL = app, oauth = client\<rparr>))"
  by (simp add: Strategy_def get_put Let_def split: sum.split)

lemma Strategy_success_puts:
  assumes "Strategy OAuthStrategy s (ArgObject a) verify = (s', Inr self)"
  shows "\<exists>app client.
    get s a ''applicationURL'' = Some app \<and> app \<noteq> [] \<and>
    s' = put (put (put (put s a
           ''requestTokenURL''
             (js_or (get s a ''requestTokenURL'') (app @ ''/plugins/servlet/oauth/request-token''))) a
           ''accessTokenURL''
             (js_or (get s a ''accessTokenURL'') (app @ ''/plugins/servlet/oauth/access-token''))) a
           ''userAuthorizationURL''
             (js_or (get s a ''userAuthorizationURL'') (app @ ''/plugins/servlet/oauth/authorize''))) a
           ''signatureMethod'' (js_or (get s a ''signatureMethod'') ''RSA-SHA1'') \<and>
    OAuthStrategy (cells s' a) verify = Inr client \<and>
    self = \<lparr>name = ''atlassian-oauth'', applicationURL = Some app, oauth = client\<rparr>"
proof -
  from assms have "truthy (get s a ''applicationURL'')"
    by (auto simp: Strategy_puts split: if_splits)
  then obtain app where app: "get s a ''applicationURL'' = Some app" "app \<noteq> []"
    by (auto simp: truthy_def split: option.splits)
  from assms app show ?thesis
    by (auto simp: Strategy_puts Let_def js_plus_def split: if_splits sum.splits)
qed

lemma Strategy_frame:
  assumes "Strategy OAuthStrategy s (ArgObject a) verify = (s', Inr self)"
      and "b \<noteq> a \<or> k \<notin> {''requestTokenURL'', ''accessTokenURL'', ''userAuthorizationURL'',
                             ''signatureMethod''}"
  shows "cells s' b k = cells s b k"
proof -
  from Strategy_success_puts [OF assms(1)] obtain v1 v2 v3 v4 where
    "s' = put (put (put (put s a ''requestTokenURL'' v1) a ''accessTokenURL'' v2) a
             ''userAuthorizationURL'' v3) a ''signatureMethod'' v4"
    by blast
  with assms(2) show ?thesis
    by (auto simp: cells_put_other)
qed

lemma Strategy_success:
  assumes "Strategy OAuthStrategy s (ArgObject a) verify = (s', Inr self)"
  shows "\<exists>app client.
    cells s a ''applicationURL'' = Some app \<and> app \<noteq> [] \<and>
    cells s' a ''requestTokenURL'' =
      Some (js_or (cells s a ''requestTokenURL'') (app @ ''/plugins/servlet/oauth/request-token'')) \<and>
    cells s' a ''accessTokenURL'' =
      Some (js_or (cells s a ''accessTokenURL'') (app @ ''/plugins/servlet/oauth/access-token'')) \<and>
    cells s' a ''userAuthorizationURL'' =
      Some (js_or (cells s a ''userAuthorizationURL'') (app @ ''/plugins/servlet/oauth/authorize'')) \<and>
    cells s' a ''signatureMethod'' = Some (js_or (cells s a ''signatureMethod'') ''RSA-SHA1'') \<and>
    fresh s' = fresh s \<and>
    OAuthStrategy (cells s' a) verify = Inr client \<and>
    self = \<lparr>name = ''atlassian-oauth'', applicationURL = Some app, oauth = client\<rparr>"
proof -
  from Strategy_success_puts [OF assms] obtain app client where
    app: "get s a ''applicationURL'' = Some app" "app \<noteq> []"
    and s': "s' = put (put (put (put s a
           ''requestTokenURL''
             (js_or (get s a ''requestTokenURL'') (app @ ''/plugins/servlet/oauth/request-token''))) a
           ''accessTokenURL''
             (js_or (get s a ''accessTokenURL'') (app @ ''/plugins/servlet/oauth/access-token''))) a
           ''userAuthorizationURL''
             (js_or (get s a ''userAuthorizationURL'') (app @ ''/plugins/servlet/oauth/authorize''))) a
           ''signatureMethod'' (js_or (get s a ''signatureMethod'') ''RSA-SHA1'')"
    and rest: "OAuthStrategy (cells s' a) verify = Inr client"
      "self = \<lparr>name = ''atlassian-oauth'', applicationURL = Some app, oauth = client\<rparr>"
    by blast
  have 1: "get s' a ''requestTokenURL'' =
      Some (js_or (get s a ''requestTokenURL'') (app @ ''/plugins/servlet/oauth/request-token''))"
    unfolding s' by (simp add: get_put)
  have 2: "get s' a ''accessTokenURL'' =
      Some (js_or (get s a ''accessTokenURL'') (app @ ''/plugins/servlet/oauth/access-token''))"
    unfolding s' by (simp add: get_put)
  have 3: "get s' a ''userAuthorizationURL'' =
      Some (js_or (get s a ''userAuthorizationURL'') (app @ ''/plugins/servlet/oauth/authorize''))"
    unfolding s' by (simp add: get_put)
  have 4: "get s' a ''signatureMethod'' = Some (js_or (get s a ''signatureMethod'') ''RSA-SHA1'')"
    unfolding s' by (simp add: get_put)
  have 5: "fresh s' = fresh s"
    unfolding s' by (simp add: fresh_put)
  from app 1 2 3 4 5 rest show ?thesis
    unfolding get_def by blast
qed

subsection \<open>Required options\<close>

text \<open>
  C5. Construction with an options object in which \<^verbatim>\<open>applicationURL\<close> is missing
  throws \<^verbatim>\<open>Error('Atlassian Oauth Strategy requires a applicationURL option')\<close>, and
  construction with one in which \<^verbatim>\<open>callbackURL\<close> is missing throws that error or, when
  \<^verbatim>\<open>applicationURL\<close> is usable, the one that names \<^verbatim>\<open>callbackURL\<close>. This holds whatever
  else the object holds, whatever the base constructor and the verify callback are, and
  the store is as it was: nothing has been written when the error is thrown.
\<close>

theorem C5_missing_required_option:
  "(cells s a ''applicationURL'' = None \<longrightarrow>
      Strategy OAuthStrategy s (ArgObject a) verify =
        (s, Inl (Error ''Atlassian Oauth Strategy requires a applicationURL option'')))
   \<and> (cells s a ''callbackURL'' = None \<longrightarrow>
      Strategy OAuthStrategy s (ArgObject a) verify =
        (s, Inl (Error (if truthy (cells s a ''applicationURL'')
                        then ''Atlassian Oauth Strategy requires a callbackURL option''
                        else ''Atlassian Oauth Strategy requires a applicationURL option''))))"
  by (simp add: Strategy_def get_def truthy_def)

text \<open>One object without \<^verbatim>\<open>applicationURL\<close>, and one without \<^verbatim>\<open>callbackURL\<close>.\<close>

theorem C5_missing_required_option_witness:
  "cells (example_store [''callbackURL'' \<mapsto> ''/auth/callback'', ''consumerKey'' \<mapsto> ''app'']) 0
      ''applicationURL'' = None
   \<and> Strategy example_OAuthStrategy
        (example_store [''callbackURL'' \<mapsto> ''/auth/callback'', ''consumerKey'' \<mapsto> ''app''])
        (ArgObject 0) () =
      (example_store [''callbackURL'' \<mapsto> ''/auth/callback'', ''consumerKey'' \<mapsto> ''app''],
       Inl (Error ''Atlassian Oauth Strategy requires a applicationURL option''))
   \<and> cells (example_store [''applicationURL'' \<mapsto> ''https://example.atlassian.net'',
                ''consumerKey'' \<mapsto> ''app'']) 0 ''callbackURL'' = None
   \<and> Strategy example_OAuthStrategy
        (example_store [''applicationURL'' \<mapsto> ''https://example.atlassian.net'',
           ''consumerKey'' \<mapsto> ''app''])
        (ArgObject 0) () =
      (example_store [''applicationURL'' \<mapsto> ''https://example.atlassian.net'',
         ''consumerKey'' \<mapsto> ''app''],
       Inl (Error ''Atlassian Oauth Strategy requires a callbackURL option''))"
  using
    C5_missing_required_option [of
      "example_store [''callbackURL'' \<mapsto> ''/auth/callback'', ''consumerKey'' \<mapsto> ''app'']"
      0 example_OAuthStrategy "()"]
    C5_missing_required_option [of
      "example_store [''applicationURL'' \<mapsto> ''https://example.atlassian.net'',
         ''consumerKey'' \<mapsto> ''app'']"
      0 example_OAuthStrategy "()"]
  by (simp add: example_store_def truthy_def)

text \<open>
  C10. Construction with \<^verbatim>\<open>undefined\<close> or \<^verbatim>\<open>null\<close> in the place of the options throws
  no \<^verbatim>\<open>TypeError\<close>: it throws the error that names \<^verbatim>\<open>applicationURL\<close>, the same that
  construction with an empty options object throws.
\<close>

theorem C10_no_options:
  "snd (Strategy OAuthStrategy s ArgUndefined verify) =
     Inl (Error ''Atlassian Oauth Strategy requires a applicationURL option'')
   \<and> snd (Strategy OAuthStrategy s ArgNull verify) =
     Inl (Error ''Atlassian Oauth Strategy requires a applicationURL option'')
   \<and> snd (Strategy OAuthStrategy (s\<lparr>cells := (cells s)(a := Map.empty)\<rparr>) (ArgObject a) verify) =
     Inl (Error ''Atlassian Oauth Strategy requires a applicationURL option'')"
  by (simp add: Strategy_def get_def truthy_def new_object_def)

subsection \<open>Derived and defaulted options\<close>

text \<open>
  C6, as the program has it. After a successful construction each of
  \<^verbatim>\<open>requestTokenURL\<close>, \<^verbatim>\<open>accessTokenURL\<close> and \<^verbatim>\<open>userAuthorizationURL\<close> of the options
  object is the value that the caller supplied, when that value is a non-empty string, and
  otherwise (the property is missing or is the empty string) it is \<^verbatim>\<open>applicationURL\<close>
  followed by \<^verbatim>\<open>/plugins/servlet/oauth/request-token\<close>,
  \<^verbatim>\<open>/plugins/servlet/oauth/access-token\<close> and \<^verbatim>\<open>/plugins/servlet/oauth/authorize\<close>
  respectively, with nothing done to a slash at the end of \<^verbatim>\<open>applicationURL\<close>.
\<close>

theorem C6_endpoint_urls:
  assumes "Strategy OAuthStrategy s (ArgObject a) verify = (s', Inr self)"
  shows "\<exists>app. cells s a ''applicationURL'' = Some app \<and>
     cells s' a ''requestTokenURL'' =
       Some (case cells s a ''requestTokenURL'' of
               None \<Rightarrow> app @ ''/plugins/servlet/oauth/request-token''
             | Some u \<Rightarrow> if u = [] then app @ ''/plugins/servlet/oauth/request-token'' else u) \<and>
     cells s' a ''accessTokenURL'' =
       Some (case cells s a ''accessTokenURL'' of
               None \<Rightarrow> app @ ''/plugins/servlet/oauth/access-token''
             | Some u \<Rightarrow> if u = [] then app @ ''/plugins/servlet/oauth/access-token'' else u) \<and>
     cells s' a ''userAuthorizationURL'' =
       Some (case cells s a ''userAuthorizationURL'' of
               None \<Rightarrow> app @ ''/plugins/servlet/oauth/authorize''
             | Some u \<Rightarrow> if u = [] then app @ ''/plugins/servlet/oauth/authorize'' else u)"
proof -
  from Strategy_success [OF assms] obtain app where
    "cells s a ''applicationURL'' = Some app"
    "cells s' a ''requestTokenURL'' =
      Some (js_or (cells s a ''requestTokenURL'') (app @ ''/plugins/servlet/oauth/request-token''))"
    "cells s' a ''accessTokenURL'' =
      Some (js_or (cells s a ''accessTokenURL'') (app @ ''/plugins/servlet/oauth/access-token''))"
    "cells s' a ''userAuthorizationURL'' =
      Some (js_or (cells s a ''userAuthorizationURL'') (app @ ''/plugins/servlet/oauth/authorize''))"
    by blast
  then show ?thesis
    by (simp add: js_or_def split: option.splits)
qed

text \<open>An object that overrides the first URL, with a slash at the end of \<^verbatim>\<open>applicationURL\<close>.\<close>

theorem C6_endpoint_urls_witness:
  "snd (Strategy example_OAuthStrategy
     (example_store [''applicationURL'' \<mapsto> ''https://example.atlassian.net/'',
        ''callbackURL'' \<mapsto> ''/auth/callback'',
        ''requestTokenURL'' \<mapsto> ''https://proxy.example.org/request-token''])
     (ArgObject 0) ()) =
     Inr \<lparr>name = ''atlassian-oauth'', applicationURL = Some ''https://example.atlassian.net/'',
          oauth = example_client NeverCallsBack NeverCallsBack\<rparr>
   \<and> cells (fst (Strategy example_OAuthStrategy
     (example_store [''applicationURL'' \<mapsto> ''https://example.atlassian.net/'',
        ''callbackURL'' \<mapsto> ''/auth/callback'',
        ''requestTokenURL'' \<mapsto> ''https://proxy.example.org/request-token''])
     (ArgObject 0) ())) 0 ''requestTokenURL'' = Some ''https://proxy.example.org/request-token''
   \<and> cells (fst (Strategy example_OAuthStrategy
     (example_store [''applicationURL'' \<mapsto> ''https://example.atlassian.net/'',
        ''callbackURL'' \<mapsto> ''/auth/callback'',
        ''requestTokenURL'' \<mapsto> ''https://proxy.example.org/request-token''])
     (ArgObject 0) ())) 0 ''accessTokenURL'' =
       Some ''https://example.atlassian.net//plugins/servlet/oauth/access-token''
   \<and> cells (fst (Strategy example_OAuthStrategy
     (example_store [''applicationURL'' \<mapsto> ''https://example.atlassian.net/'',
        ''callbackURL'' \<mapsto> ''/auth/callback'',
        ''requestTokenURL'' \<mapsto> ''https://proxy.example.org/request-token''])
     (ArgObject 0) ())) 0 ''userAuthorizationURL'' =
       Some ''https://example.atlassian.net//plugins/servlet/oauth/authorize''"
proof -
  let ?s = "example_store [''applicationURL'' \<mapsto> ''https://example.atlassian.net/'',
        ''callbackURL'' \<mapsto> ''/auth/callback'',
        ''requestTokenURL'' \<mapsto> ''https://proxy.example.org/request-token'']"
  let ?r = "Strategy example_OAuthStrategy ?s (ArgObject 0) ()"
  have ok: "snd ?r = Inr \<lparr>name = ''atlassian-oauth'',
          applicationURL = Some ''https://example.atlassian.net/'',
          oauth = example_client NeverCallsBack NeverCallsBack\<rparr>"
    by (simp add: ctor_defs example_store_def example_OAuthStrategy_def)
  then have "?r = (fst ?r, Inr \<lparr>name = ''atlassian-oauth'',
          applicationURL = Some ''https://example.atlassian.net/'',
          oauth = example_client NeverCallsBack NeverCallsBack\<rparr>)"
    by (metis prod.collapse)
  from C6_endpoint_urls [OF this] ok show ?thesis
    by (simp add: example_store_def)
qed

text \<open>
  C6 as the specification words it fails for an override that is the empty string: the
  caller supplied \<^verbatim>\<open>requestTokenURL: ""\<close>, construction succeeds, and the property is
  the derived URL, not the supplied value.
\<close>

theorem C6_counterexample:
  "cells (example_store [''applicationURL'' \<mapsto> ''https://example.atlassian.net'',
        ''callbackURL'' \<mapsto> ''/auth/callback'', ''requestTokenURL'' \<mapsto> '''']) 0
      ''requestTokenURL'' = Some ''''
   \<and> snd (Strategy example_OAuthStrategy
     (example_store [''applicationURL'' \<mapsto> ''https://example.atlassian.net'',
        ''callbackURL'' \<mapsto> ''/auth/callback'', ''requestTokenURL'' \<mapsto> ''''])
     (ArgObject 0) ()) =
     Inr \<lparr>name = ''atlassian-oauth'', applicationURL = Some ''https://example.atlassian.net'',
          oauth = example_client NeverCallsBack NeverCallsBack\<rparr>
   \<and> cells (fst (Strategy example_OAuthStrategy
     (example_store [''applicationURL'' \<mapsto> ''https://example.atlassian.net'',
        ''callbackURL'' \<mapsto> ''/auth/callback'', ''requestTokenURL'' \<mapsto> ''''])
     (ArgObject 0) ())) 0 ''requestTokenURL'' =
       Some ''https://example.atlassian.net/plugins/servlet/oauth/request-token''"
  by (simp add: ctor_defs example_store_def example_OAuthStrategy_def)

text \<open>
  C8, as the program has it. After a successful construction \<^verbatim>\<open>signatureMethod\<close> of the
  options object is \<^verbatim>\<open>RSA-SHA1\<close> when the caller supplied none or supplied the empty
  string, and the supplied value otherwise.
\<close>

theorem C8_signature_method:
  assumes "Strategy OAuthStrategy s (ArgObject a) verify = (s', Inr self)"
  shows "cells s' a ''signatureMethod'' =
       Some (case cells s a ''signatureMethod'' of
               None \<Rightarrow> ''RSA-SHA1''
             | Some m \<Rightarrow> if m = [] then ''RSA-SHA1'' else m)"
proof -
  from Strategy_success [OF assms] have
    "cells s' a ''signatureMethod'' = Some (js_or (cells s a ''signatureMethod'') ''RSA-SHA1'')"
    by blast
  then show ?thesis
    by (simp add: js_or_def split: option.splits)
qed

text \<open>An object that asks for \<^verbatim>\<open>HMAC-SHA1\<close>.\<close>

theorem C8_signature_method_witness:
  "snd (Strategy example_OAuthStrategy
     (example_store [''applicationURL'' \<mapsto> ''https://example.atlassian.net'',
        ''callbackURL'' \<mapsto> ''/auth/callback'', ''signatureMethod'' \<mapsto> ''HMAC-SHA1''])
     (ArgObject 0) ()) =
     Inr \<lparr>name = ''atlassian-oauth'', applicationURL = Some ''https://example.atlassian.net'',
          oauth = example_client NeverCallsBack NeverCallsBack\<rparr>
   \<and> cells (fst (Strategy example_OAuthStrategy
     (example_store [''applicationURL'' \<mapsto> ''https://example.atlassian.net'',
        ''callbackURL'' \<mapsto> ''/auth/callback'', ''signatureMethod'' \<mapsto> ''HMAC-SHA1''])
     (ArgObject 0) ())) 0 ''signatureMethod'' = Some ''HMAC-SHA1''"
proof -
  let ?s = "example_store [''applicationURL'' \<mapsto> ''https://example.atlassian.net'',
        ''callbackURL'' \<mapsto> ''/auth/callback'', ''signatureMethod'' \<mapsto> ''HMAC-SHA1'']"
  let ?r = "Strategy example_OAuthStrategy ?s (ArgObject 0) ()"
  have ok: "snd ?r = Inr \<lparr>name = ''atlassian-oauth'',
          applicationURL = Some ''https://example.atlassian.net'',
          oauth = example_client NeverCallsBack NeverCallsBack\<rparr>"
    by (simp add: ctor_defs example_store_def example_OAuthStrategy_def)
  then have "?r = (fst ?r, Inr \<lparr>name = ''atlassian-oauth'',
          applicationURL = Some ''https://example.atlassian.net'',
          oauth = example_client NeverCallsBack NeverCallsBack\<rparr>)"
    by (metis prod.collapse)
  from C8_signature_method [OF this] ok show ?thesis
    by (simp add: example_store_def)
qed

text \<open>
  C8 as the specification words it fails for a signature method that is the empty string:
  the caller supplied \<^verbatim>\<open>signatureMethod: ""\<close>, construction succeeds, and the property is
  \<^verbatim>\<open>RSA-SHA1\<close>, not the supplied value.
\<close>

theorem C8_counterexample:
  "cells (example_store [''applicationURL'' \<mapsto> ''https://example.atlassian.net'',
        ''callbackURL'' \<mapsto> ''/auth/callback'', ''signatureMethod'' \<mapsto> '''']) 0
      ''signatureMethod'' = Some ''''
   \<and> snd (Strategy example_OAuthStrategy
     (example_store [''applicationURL'' \<mapsto> ''https://example.atlassian.net'',
        ''callbackURL'' \<mapsto> ''/auth/callback'', ''signatureMethod'' \<mapsto> ''''])
     (ArgObject 0) ()) =
     Inr \<lparr>name = ''atlassian-oauth'', applicationURL = Some ''https://example.atlassian.net'',
          oauth = example_client NeverCallsBack NeverCallsBack\<rparr>
   \<and> cells (fst (Strategy example_OAuthStrategy
     (example_store [''applicationURL'' \<mapsto> ''https://example.atlassian.net'',
        ''callbackURL'' \<mapsto> ''/auth/callback'', ''signatureMethod'' \<mapsto> ''''])
     (ArgObject 0) ())) 0 ''signatureMethod'' = Some ''RSA-SHA1''"
  by (simp add: ctor_defs example_store_def example_OAuthStrategy_def)

subsection \<open>The caller's object is written\<close>

text \<open>
  C9. A successful construction writes to the object that the caller passed in: in the
  store after the call that object has usable \<^verbatim>\<open>requestTokenURL\<close>,
  \<^verbatim>\<open>accessTokenURL\<close>, \<^verbatim>\<open>userAuthorizationURL\<close> and \<^verbatim>\<open>signatureMethod\<close> properties. No
  object was created for them, the base constructor was given this very object, and
  nothing else in the store has changed.
\<close>

theorem C9_options_written_in_place:
  assumes "Strategy OAuthStrategy s (ArgObject a) verify = (s', Inr self)"
  shows "truthy (cells s' a ''requestTokenURL'') \<and> truthy (cells s' a ''accessTokenURL'')
     \<and> truthy (cells s' a ''userAuthorizationURL'') \<and> truthy (cells s' a ''signatureMethod'')
     \<and> fresh s' = fresh s
     \<and> OAuthStrategy (cells s' a) verify = Inr (oauth self)
     \<and> (\<forall>b k. b \<noteq> a \<or> k \<notin> {''requestTokenURL'', ''accessTokenURL'',
            ''userAuthorizationURL'', ''signatureMethod''} \<longrightarrow> cells s' b k = cells s b k)"
proof -
  from Strategy_success [OF assms] obtain app where
    "cells s' a ''requestTokenURL'' =
      Some (js_or (cells s a ''requestTokenURL'') (app @ ''/plugins/servlet/oauth/request-token''))"
    "cells s' a ''accessTokenURL'' =
      Some (js_or (cells s a ''accessTokenURL'') (app @ ''/plugins/servlet/oauth/access-token''))"
    "cells s' a ''userAuthorizationURL'' =
      Some (js_or (cells s a ''userAuthorizationURL'') (app @ ''/plugins/servlet/oauth/authorize''))"
    "cells s' a ''signatureMethod'' = Some (js_or (cells s a ''signatureMethod'') ''RSA-SHA1'')"
    "fresh s' = fresh s" "OAuthStrategy (cells s' a) verify = Inr (oauth self)"
    by auto
  then show ?thesis
    using Strategy_frame [OF assms]
    by (simp add: js_or_def truthy_def split: option.splits)
qed

text \<open>An object that has none of the four properties before the call, and all of them after.\<close>

theorem C9_options_written_in_place_witness:
  "map (cells (example_store [''applicationURL'' \<mapsto> ''https://example.atlassian.net'',
        ''callbackURL'' \<mapsto> ''/auth/callback'']) 0)
     [''requestTokenURL'', ''accessTokenURL'', ''userAuthorizationURL'', ''signatureMethod'']
     = [None, None, None, None]
   \<and> snd (Strategy example_OAuthStrategy
     (example_store [''applicationURL'' \<mapsto> ''https://example.atlassian.net'',
        ''callbackURL'' \<mapsto> ''/auth/callback''])
     (ArgObject 0) ()) =
     Inr \<lparr>name = ''atlassian-oauth'', applicationURL = Some ''https://example.atlassian.net'',
          oauth = example_client NeverCallsBack NeverCallsBack\<rparr>
   \<and> map truthy (map (cells (fst (Strategy example_OAuthStrategy
     (example_store [''applicationURL'' \<mapsto> ''https://example.atlassian.net'',
        ''callbackURL'' \<mapsto> ''/auth/callback''])
     (ArgObject 0) ())) 0)
     [''requestTokenURL'', ''accessTokenURL'', ''userAuthorizationURL'', ''signatureMethod''])
     = [True, True, True, True]
   \<and> fresh (fst (Strategy example_OAuthStrategy
     (example_store [''applicationURL'' \<mapsto> ''https://example.atlassian.net'',
        ''callbackURL'' \<mapsto> ''/auth/callback''])
     (ArgObject 0) ())) = 1"
proof -
  let ?s = "example_store [''applicationURL'' \<mapsto> ''https://example.atlassian.net'',
        ''callbackURL'' \<mapsto> ''/auth/callback'']"
  let ?r = "Strategy example_OAuthStrategy ?s (ArgObject 0) ()"
  have ok: "snd ?r = Inr \<lparr>name = ''atlassian-oauth'',
          applicationURL = Some ''https://example.atlassian.net'',
          oauth = example_client NeverCallsBack NeverCallsBack\<rparr>"
    by (simp add: ctor_defs example_store_def example_OAuthStrategy_def)
  then have "?r = (fst ?r, Inr \<lparr>name = ''atlassian-oauth'',
          applicationURL = Some ''https://example.atlassian.net'',
          oauth = example_client NeverCallsBack NeverCallsBack\<rparr>)"
    by (metis prod.collapse)
  from C9_options_written_in_place [OF this] ok show ?thesis
    by (simp add: example_store_def)
qed

section \<open>Properties of \<^verbatim>\<open>userProfile\<close>\<close>

subsection \<open>Auxiliary facts\<close>

lemmas run_defs =
  userProfile_def whoami_callback_def profile_callback_def call_performSecureRequest_def
  try_catch_def done_error_def done_profile_def throw_def

lemma example_requests:
  "performSecureRequest (oauth (example_strategy b1 b2))
     (whoami_request (example_strategy b1 b2) token tokenSecret) = b1"
  "performSecureRequest (oauth (example_strategy b1 b2))
     (profile_request (example_strategy b1 b2) token tokenSecret username) = b2"
  by (simp_all add: example_strategy_def example_client_def whoami_request_def
        profile_request_def js_plus_def)

lemma parse_jane_body:
  "JSON_parse jane_body =
     Inr (Obj [(''name'', Str ''jdoe''), (''displayName'', Str ''Jane Doe''),
               (''slug'', Str ''jdoe''), (''emailAddress'', Str ''jane@example.com'')])"
proof -
  have "lex LStart jane_body =
      Some [LBrace, TStr ''name'', Colon, TStr ''jdoe'', Comma,
            TStr ''displayName'', Colon, TStr ''Jane Doe'', Comma,
            TStr ''slug'', Colon, TStr ''jdoe'', Comma,
            TStr ''emailAddress'', Colon, TStr ''jane@example.com'', RBrace]"
    unfolding jane_body_def by code_simp
  then show ?thesis
    by (simp add: JSON_parse_def)
qed

lemma make_profile_jane:
  "make_profile token tokenSecret jane_body =
     Inr (Obj [(''provider'', Str ''atlassian-oauth''), (''id'', Str ''jdoe''),
               (''username'', Str ''jdoe''), (''displayName'', Str ''Jane Doe''),
               (''avatarUrls'', Str ''jdoe''),
               (''emails'', Arr [Obj [(''value'', Str ''jane@example.com'')]]),
               (''_raw'', Str jane_body),
               (''_json'', Obj [(''name'', Str ''jdoe''), (''displayName'', Str ''Jane Doe''),
                  (''slug'', Str ''jdoe''), (''emailAddress'', Str ''jane@example.com'')]),
               (''token'', Str token), (''tokenSecret'', Str tokenSecret)])"
  by (simp add: make_profile_def bind_def parse_jane_body)

lemma parse_not_json: "JSON_parse ''not-json'' = Inl SyntaxError"
  by (simp add: JSON_parse_def lex_step_def lex_start_def is_ws_def is_digit_def)

lemma make_profile_not_json:
  "JSON_parse body = Inl e \<Longrightarrow> make_profile token tokenSecret body = Inl e"
  by (simp add: make_profile_def bind_def)

subsection \<open>The profile of a successful fetch\<close>

text \<open>
  C1, as the program has it. When the whoami request is answered with the body \<^verbatim>\<open>jdoe\<close> and
  the profile request with the JSON body of Jane Doe (each answer given within the call of
  the primitive or later), \<^verbatim>\<open>userProfile\<close> issues the two requests and then calls
  \<^verbatim>\<open>done(null, profile)\<close> once, and nothing else happens. The profile has
  \<^verbatim>\<open>provider = "atlassian-oauth"\<close>, \<^verbatim>\<open>id = "jdoe"\<close>, \<^verbatim>\<open>username = "jdoe"\<close>,
  \<^verbatim>\<open>displayName = "Jane Doe"\<close>, \<^verbatim>\<open>avatarUrls = "jdoe"\<close>,
  \<^verbatim>\<open>emails = [{value: "jane@example.com"}]\<close>, the response text in the property
  \<^verbatim>\<open>_raw\<close>, the parsed object in the property \<^verbatim>\<open>_json\<close> (whose \<^verbatim>\<open>name\<close> is
  \<^verbatim>\<open>"jdoe"\<close>), and the token and the token secret that were passed in.
\<close>

theorem C1_profile:
  assumes "performSecureRequest (oauth self) (whoami_request self token tokenSecret)
             \<in> {CallsBack (Success ''jdoe''), CallsBackLater (Success ''jdoe'')}"
      and "performSecureRequest (oauth self) (profile_request self token tokenSecret ''jdoe'')
             \<in> {CallsBack (Success jane_body), CallsBackLater (Success jane_body)}"
  shows "userProfile self token tokenSecret params =
     ([Request (whoami_request self token tokenSecret),
       Request (profile_request self token tokenSecret ''jdoe''),
       Done None (Some (Obj
         [(''provider'', Str ''atlassian-oauth''), (''id'', Str ''jdoe''),
          (''username'', Str ''jdoe''), (''displayName'', Str ''Jane Doe''),
          (''avatarUrls'', Str ''jdoe''),
          (''emails'', Arr [Obj [(''value'', Str ''jane@example.com'')]]),
          (''_raw'', Str jane_body),
          (''_json'', Obj [(''name'', Str ''jdoe''), (''displayName'', Str ''Jane Doe''),
             (''slug'', Str ''jdoe''), (''emailAddress'', Str ''jane@example.com'')]),
          (''token'', Str token), (''tokenSecret'', Str tokenSecret)]))],
      None)"
  using assms by (auto simp: run_defs make_profile_jane Let_def)

text \<open>The theorem at work: both answers come later, as the OAuth library gives them.\<close>

theorem C1_profile_witness:
  "performSecureRequest
     (oauth (example_strategy (CallsBackLater (Success ''jdoe'')) (CallsBackLater (Success jane_body))))
     (whoami_request
        (example_strategy (CallsBackLater (Success ''jdoe'')) (CallsBackLater (Success jane_body)))
        ''token-1'' ''secret-1'')
     = CallsBackLater (Success ''jdoe'')
   \<and> performSecureRequest
     (oauth (example_strategy (CallsBackLater (Success ''jdoe'')) (CallsBackLater (Success jane_body))))
     (profile_request
        (example_strategy (CallsBackLater (Success ''jdoe'')) (CallsBackLater (Success jane_body)))
        ''token-1'' ''secret-1'' ''jdoe'')
     = CallsBackLater (Success jane_body)
   \<and> done_calls (fst (userProfile
        (example_strategy (CallsBackLater (Success ''jdoe'')) (CallsBackLater (Success jane_body)))
        ''token-1'' ''secret-1'' ())) =
     [(None, Some (Obj
         [(''provider'', Str ''atlassian-oauth''), (''id'', Str ''jdoe''),
          (''username'', Str ''jdoe''), (''displayName'', Str ''Jane Doe''),
          (''avatarUrls'', Str ''jdoe''),
          (''emails'', Arr [Obj [(''value'', Str ''jane@example.com'')]]),
          (''_raw'', Str jane_body),
          (''_json'', Obj [(''name'', Str ''jdoe''), (''displayName'', Str ''Jane Doe''),
             (''slug'', Str ''jdoe''), (''emailAddress'', Str ''jane@example.com'')]),
          (''token'', Str ''token-1''), (''tokenSecret'', Str ''secret-1'')]))]"
  using C1_profile [of "example_strategy (CallsBackLater (Success ''jdoe''))
      (CallsBackLater (Success jane_body))" "''token-1''" "''secret-1''" "()"]
  by (simp add: example_requests)

text \<open>
  C1 as the specification words it fails: the profile of that fetch has no property
  \<^verbatim>\<open>rawBody\<close> and no property \<^verbatim>\<open>rawJson\<close>. Reading either gives \<^verbatim>\<open>undefined\<close>.
\<close>

theorem C1_counterexample:
  "profile_properties ''rawBody''
     (fst (userProfile
        (example_strategy (CallsBackLater (Success ''jdoe'')) (CallsBackLater (Success jane_body)))
        ''token-1'' ''secret-1'' ())) = [Inr Undefined]
   \<and> profile_properties ''rawJson''
     (fst (userProfile
        (example_strategy (CallsBackLater (Success ''jdoe'')) (CallsBackLater (Success jane_body)))
        ''token-1'' ''secret-1'' ())) = [Inr Undefined]"
  by (simp add: run_defs example_requests make_profile_jane)

subsection \<open>The two requests\<close>



text \<open>
  C7. When the whoami request succeeds with the body \<open>body\<close>, the second call of the
  primitive is a \<^verbatim>\<open>GET\<close> of \<^verbatim>\<open>applicationURL\<close> followed by \<^verbatim>\<open>/rest/api/1.0/users/\<close>
  followed by \<open>body\<close> as it came, and there is no third call.
\<close>

theorem C7_profile_request_url:
  assumes "applicationURL self = Some app"
      and "performSecureRequest (oauth self) (whoami_request self token tokenSecret)
             \<in> {CallsBack (Success body), CallsBackLater (Success body)}"
  shows "requests (fst (userProfile self token tokenSecret params)) =
           [whoami_request self token tokenSecret, profile_request self token tokenSecret body]
         \<and> http_method (profile_request self token tokenSecret body) = ''GET''
         \<and> url (profile_request self token tokenSecret body) = app @ ''/rest/api/1.0/users/'' @ body"
proof -
  have "requests (fst (userProfile self token tokenSecret params)) =
           [whoami_request self token tokenSecret, profile_request self token tokenSecret body]"
    using assms(2)
    by (auto simp: run_defs Let_def
          split: behaviour.splits response.splits sum.splits option.splits prod.splits)
  moreover have "url (profile_request self token tokenSecret body) =
      app @ ''/rest/api/1.0/users/'' @ body"
    using assms(1) by (simp add: profile_request_def js_plus_def)
  ultimately show ?thesis
    by (simp add: profile_request_def)
qed

text \<open>A user name with a space, a slash and a question mark goes into the URL as it is.\<close>

theorem C7_profile_request_url_witness:
  "applicationURL (example_strategy (CallsBackLater (Success ''j doe/a?b'')) NeverCallsBack)
     = Some ''https://example.atlassian.net''
   \<and> performSecureRequest
     (oauth (example_strategy (CallsBackLater (Success ''j doe/a?b'')) NeverCallsBack))
     (whoami_request (example_strategy (CallsBackLater (Success ''j doe/a?b'')) NeverCallsBack)
        ''token-1'' ''secret-1'')
     = CallsBackLater (Success ''j doe/a?b'')
   \<and> map url (requests (fst (userProfile
        (example_strategy (CallsBackLater (Success ''j doe/a?b'')) NeverCallsBack)
        ''token-1'' ''secret-1'' ())))
     = [''https://example.atlassian.net/plugins/servlet/applinks/whoami'',
        ''https://example.atlassian.net/rest/api/1.0/users/j doe/a?b'']"
  using C7_profile_request_url [of "example_strategy (CallsBackLater (Success ''j doe/a?b'')) NeverCallsBack"
      "''https://example.atlassian.net''" "''token-1''" "''secret-1''" "''j doe/a?b''" "()"]
  by (simp add: example_requests) (simp add: whoami_request_def example_strategy_def js_plus_def)

subsection \<open>How \<^verbatim>\<open>done\<close> is called\<close>

text \<open>
  Whatever the OAuth client does, \<^verbatim>\<open>userProfile\<close> itself returns without an exception,
  calls \<^verbatim>\<open>done\<close> at most once, and gives it either an error and no profile or a profile
  and no error.
\<close>

lemma userProfile_never_throws:
  "snd (userProfile self token tokenSecret params) = None"
  by (auto simp: run_defs Let_def
        split: behaviour.splits response.splits sum.splits option.splits prod.splits)

lemma done_at_most_once:
  "length (done_calls (fst (userProfile self token tokenSecret params))) \<le> 1"
  by (auto simp: run_defs Let_def
        split: behaviour.splits response.splits sum.splits option.splits prod.splits)

lemma done_error_or_profile:
  "(e, p) \<in> set (done_calls (fst (userProfile self token tokenSecret params)))
     \<Longrightarrow> (e = None) \<noteq> (p = None)"
  by (auto simp: run_defs Let_def
        split: behaviour.splits response.splits sum.splits option.splits prod.splits if_splits)

text \<open>
  It calls \<^verbatim>\<open>done\<close> exactly once unless an exception went uncaught or a request was
  never answered; and an exception goes uncaught only out of the callback of the second
  request, when that callback runs later and the profile cannot be made from the body.
\<close>

lemma done_exactly_once:
  "length (done_calls (fst (userProfile self token tokenSecret params))) = 1
   \<or> uncaught (fst (userProfile self token tokenSecret params)) \<noteq> []
   \<or> NeverCallsBack \<in> performSecureRequest (oauth self) `
         set (requests (fst (userProfile self token tokenSecret params)))"
  by (auto simp: run_defs Let_def
        split: behaviour.splits response.splits sum.splits option.splits prod.splits)

lemma uncaught_only_later:
  "e \<in> set (uncaught (fst (userProfile self token tokenSecret params))) \<Longrightarrow>
     \<exists>username body.
       performSecureRequest (oauth self) (profile_request self token tokenSecret username)
         = CallsBackLater (Success body) \<and> make_profile token tokenSecret body = Inl e"
  by (auto simp: run_defs Let_def
        split: behaviour.splits response.splits sum.splits option.splits prod.splits if_splits)

text \<open>
  An exception between \<^verbatim>\<open>JSON.parse(body)\<close> and the finished profile (a body that is not
  JSON, or the body \<^verbatim>\<open>null\<close>) is thrown inside the callback of the second request. When
  the primitive calls that callback before it returns, the \<^verbatim>\<open>catch\<close> of line 116 hands
  the exception to \<^verbatim>\<open>done\<close>. When the callback runs later, the \<^verbatim>\<open>try\<close> has long been
  left: the exception is uncaught and \<^verbatim>\<open>done\<close> is not called.
\<close>

lemma exception_in_immediate_callback:
  assumes "performSecureRequest (oauth self) (whoami_request self token tokenSecret)
             \<in> {CallsBack (Success username), CallsBackLater (Success username)}"
      and "performSecureRequest (oauth self) (profile_request self token tokenSecret username)
             = CallsBack (Success body)"
      and "make_profile token tokenSecret body = Inl e"
  shows "userProfile self token tokenSecret params =
     ([Request (whoami_request self token tokenSecret),
       Request (profile_request self token tokenSecret username), Done (Some e) None], None)"
  using assms by (auto simp: run_defs Let_def)

lemma exception_in_later_callback:
  assumes "performSecureRequest (oauth self) (whoami_request self token tokenSecret)
             \<in> {CallsBack (Success username), CallsBackLater (Success username)}"
      and "performSecureRequest (oauth self) (profile_request self token tokenSecret username)
             = CallsBackLater (Success body)"
      and "make_profile token tokenSecret body = Inl e"
  shows "userProfile self token tokenSecret params =
     ([Request (whoami_request self token tokenSecret),
       Request (profile_request self token tokenSecret username), Uncaught e], None)"
  using assms by (auto simp: run_defs Let_def)

text \<open>
  C2 does not hold of the program. Let both requests be answered later, the whoami request
  with \<^verbatim>\<open>jdoe\<close> and the profile request with the body \<^verbatim>\<open>not-json\<close>: the
  \<^verbatim>\<open>SyntaxError\<close> of \<^verbatim>\<open>JSON.parse\<close> is an uncaught exception of the callback, and
  \<^verbatim>\<open>done\<close> is not given it.
\<close>

theorem C2_parse_failure_uncaught:
  "userProfile
     (example_strategy (CallsBackLater (Success ''jdoe'')) (CallsBackLater (Success ''not-json'')))
     ''token-1'' ''secret-1'' () =
   ([Request \<lparr>oauth_token = ''token-1'', oauth_token_secret = ''secret-1'', http_method = ''GET'',
        url = ''https://example.atlassian.net/plugins/servlet/applinks/whoami'',
        extra_params = None, post_body = '''', post_content_type = ''application/json''\<rparr>,
     Request \<lparr>oauth_token = ''token-1'', oauth_token_secret = ''secret-1'', http_method = ''GET'',
        url = ''https://example.atlassian.net/rest/api/1.0/users/jdoe'',
        extra_params = None, post_body = '''', post_content_type = ''application/json''\<rparr>,
     Uncaught SyntaxError], None)"
  by (simp add: run_defs example_requests make_profile_not_json parse_not_json)
     (simp add: whoami_request_def profile_request_def example_strategy_def js_plus_def)

text \<open>
  C4 does not hold of the program either, for the same reason: on the path of a parse
  failure, with answers that come later, \<^verbatim>\<open>done\<close> is called not once but never.
\<close>

theorem C4_done_not_invoked:
  "length (done_calls (fst (userProfile
     (example_strategy (CallsBackLater (Success ''jdoe'')) (CallsBackLater (Success ''not-json'')))
     ''token-1'' ''secret-1'' ()))) = 0"
  by (simp add: run_defs example_requests make_profile_not_json parse_not_json)

end
